theory Spec2Isabelle
  imports Complex_Main "HOL-Library.AList" "HOL-Library.Word"
begin

section \<open>Values exchanged with the sensor board\<close>

text \<open>
  \<^verbatim>\<open>json.loads\<close> yields Python values: \<^verbatim>\<open>None\<close>, booleans, numbers, strings, lists and
  dictionaries. Numbers (Python \<^verbatim>\<open>int\<close> and finite \<^verbatim>\<open>float\<close>) are idealised as reals.
  A Python \<^verbatim>\<open>dict\<close> keeps its keys in insertion order, so it is an association list:
  \<^verbatim>\<open>d.get(k)\<close> is \<open>map_of\<close>, \<^verbatim>\<open>d[k] = v\<close> is \<open>AList.update\<close> (in place when the key
  exists, appended otherwise) and \<^verbatim>\<open>d.pop(k)\<close> removes the entry with \<open>AList.delete\<close>.
\<close>

datatype json =
    JNull
  | JBool bool
  | JNum real
  | JStr string
  | JArr "json list"
  | JObj "(string \<times> json) list"

type_synonym dict = "(string \<times> json) list"

type_synonym bytes = "8 word list"

text \<open>
  Exceptions are values. The \<^verbatim>\<open>detail\<close> of an \<^verbatim>\<open>HTTPException\<close> is kept structured:
  \<open>Prediction_error e\<close> stands for the f-string \<^verbatim>\<open>f"Prediction error: {str(e)}"\<close>.
\<close>

datatype detail =
    Failed_to_read_sensor_data
  | ML_model_not_loaded
  | Prediction_error exn
and exn =
    HTTPException nat detail
  | FileNotFoundError
  | ValueError
  | AttributeError
  | TypeError
  | KeyError string
  | UnicodeDecodeError
  | JSONDecodeError
  | SerialException
  | ModelError string

section \<open>Configuration\<close>

definition REQUIRED_FEATURES :: "string list" where
  "REQUIRED_FEATURES = [''PM2.5'', ''PM10'', ''NH3'', ''CO'']"

section \<open>Status classifier\<close>

text \<open>\<^verbatim>\<open>get_aqi_status\<close>, main.py lines 169-182.\<close>

definition get_aqi_status :: "real \<Rightarrow> string" where
  "get_aqi_status aqi =
     (if aqi \<le> 50 then ''Good''
      else if aqi \<le> 100 then ''Moderate''
      else if aqi \<le> 150 then ''Unhealthy for Sensitive Groups''
      else if aqi \<le> 200 then ''Unhealthy''
      else if aqi \<le> 300 then ''Very Unhealthy''
      else ''Hazardous'')"

text \<open>
  The order of the buckets, as the specification lists them; the rank of a status is its
  position in that list (6 for a string that is no status).
\<close>

definition status_order :: "string list" where
  "status_order =
     [''Good'', ''Moderate'', ''Unhealthy for Sensitive Groups'', ''Unhealthy'',
      ''Very Unhealthy'', ''Hazardous'']"

definition bucket_rank :: "string \<Rightarrow> nat" where
  "bucket_rank s = length (takeWhile (\<lambda>x. x \<noteq> s) status_order)"


section \<open>Library and environment\<close>

text \<open>
  The text codec, \<^verbatim>\<open>str.strip\<close>, \<^verbatim>\<open>json.loads\<close> and \<^verbatim>\<open>round\<close> belong to the Python
  library, not to the repository: they are parameters of the model. \<open>None\<close> from
  \<open>decode_utf8\<close> is \<^verbatim>\<open>UnicodeDecodeError\<close>, \<open>None\<close> from \<open>json_loads\<close> is
  \<^verbatim>\<open>json.JSONDecodeError\<close>. \<open>round_ndigits L x n\<close> is \<^verbatim>\<open>round(x, n)\<close>: on the estimator's
  output it is computed in binary floating point, which the model does not define.
\<close>

record lib =
  decode_utf8 :: "bytes \<Rightarrow> string option"
  strip :: "string \<Rightarrow> string"
  json_loads :: "string \<Rightarrow> json option"
  round_ndigits :: "real \<Rightarrow> int \<Rightarrow> real"

text \<open>
  The loaded estimator: \<^verbatim>\<open>feature_names_in_\<close> (absent on an estimator fitted without column
  names) and \<^verbatim>\<open>predict\<close> applied to the one-row frame whose columns are the entries of the
  dictionary in order; \<^verbatim>\<open>predict\<close> may raise.
\<close>

record Model =
  feature_names_in :: "string list option"
  predict :: "dict \<Rightarrow> exn + real"

text \<open>
  The two globals of main.py, \<^verbatim>\<open>ser\<close> and \<^verbatim>\<open>model\<close>, and a trace of the calls the
  program makes to the serial port and to the model. An open port is represented by the
  bytes that reach it within the bounded wait of the next read.
\<close>

datatype call = Readline | Predict dict

record state =
  ser :: "bytes option"
  model :: "Model option"
  calls :: "call list"

text \<open>
  \<^verbatim>\<open>Serial.readline\<close> with a timeout: the bytes up to and including the first line feed,
  or everything received when the wait ends before a line feed arrives. A fault of the
  device during the read is outside the model; the source treats it like any other
  exception of the read path.
\<close>

definition readline :: "bytes \<Rightarrow> bytes \<times> bytes" where
  "readline buf =
     (case dropWhile (\<lambda>b. b \<noteq> 10) buf of
        [] \<Rightarrow> (buf, [])
      | nl # rest \<Rightarrow> (takeWhile (\<lambda>b. b \<noteq> 10) buf @ [nl], rest))"

section \<open>Startup\<close>

text \<open>
  What \<^verbatim>\<open>lifespan\<close> finds when the process starts: whether the model file exists, what
  \<^verbatim>\<open>joblib.load\<close> returns or raises, and what \<^verbatim>\<open>serial.Serial\<close> returns or raises.
\<close>

record startup_env =
  model_file_exists :: bool
  joblib_load :: "exn + Model"
  serial_Serial :: "exn + bytes"

text \<open>The \<^verbatim>\<open>try\<close> block of lines 31-39.\<close>

definition load_model :: "startup_env \<Rightarrow> exn + Model" where
  "load_model env =
     (if \<not> model_file_exists env then Inl FileNotFoundError
      else case joblib_load env of
        Inl e \<Rightarrow> Inl e
      | Inr m \<Rightarrow>
          (case feature_names_in m of
             None \<Rightarrow> Inl AttributeError
           | Some names \<Rightarrow>
               if names \<noteq> REQUIRED_FEATURES then Inl ValueError else Inr m))"

text \<open>
  \<^verbatim>\<open>lifespan\<close> up to its \<^verbatim>\<open>yield\<close>: any exception of the first block leaves
  \<^verbatim>\<open>model = None\<close>, any exception of the second leaves \<^verbatim>\<open>ser = None\<close>;
  \<^verbatim>\<open>reset_input_buffer\<close> empties the input buffer of the port.
\<close>

definition lifespan :: "startup_env \<Rightarrow> state" where
  "lifespan env =
     \<lparr>ser = (case serial_Serial env of Inl e \<Rightarrow> None | Inr port \<Rightarrow> Some []),
      model = (case load_model env of Inl e \<Rightarrow> None | Inr m \<Rightarrow> Some m),
      calls = []\<rparr>"

section \<open>Record validator\<close>

text \<open>\<^verbatim>\<open>data.get(field)\<close>: \<^verbatim>\<open>None\<close> for a missing key, and for a key holding null.\<close>

definition dict_get :: "dict \<Rightarrow> string \<Rightarrow> json" where
  "dict_get d k = (case map_of d k of None \<Rightarrow> JNull | Some v \<Rightarrow> v)"

text \<open>
  The operand of \<^verbatim>\<open>min_val <= value <= max_val\<close>: numbers compare, \<^verbatim>\<open>True\<close> and
  \<^verbatim>\<open>False\<close> compare as 1 and 0, anything else raises \<^verbatim>\<open>TypeError\<close>.
\<close>

fun num_of :: "json \<Rightarrow> real option" where
  "num_of (JNum x) = Some x"
| "num_of (JBool b) = Some (if b then 1 else 0)"
| "num_of _ = None"

definition ranges :: "(string \<times> real \<times> real) list" where
  "ranges =
     [(''PM2.5'', 0, 1000),
      (''PM10'', 0, 1000),
      (''CO'', 0, 1000),
      (''NH3'', 0, 500),
      (''temp'', -40, 85),
      (''hum'', 0, 100)]"

text \<open>The \<^verbatim>\<open>for\<close> loop of lines 89-95 over the entries of the table, in order.\<close>

fun validate_loop :: "(string \<times> real \<times> real) list \<Rightarrow> dict \<Rightarrow> exn + bool" where
  "validate_loop [] data = Inr True"
| "validate_loop ((field, min_val, max_val) # rest) data =
     (let v = dict_get data field in
      if v = JNull \<and> field \<in> set REQUIRED_FEATURES then Inr False
      else if v \<noteq> JNull then
        (case num_of v of
           None \<Rightarrow> Inl TypeError
         | Some x \<Rightarrow>
             if \<not> (min_val \<le> x \<and> x \<le> max_val) then Inr False
             else validate_loop rest data)
      else validate_loop rest data)"

definition validate_sensor_data :: "dict \<Rightarrow> exn + bool" where
  "validate_sensor_data data = validate_loop ranges data"

text \<open>
  A record whose fields named in the table of ranges hold numbers, where it has them.
\<close>

definition numeric_fields :: "dict \<Rightarrow> bool" where
  "numeric_fields d =
     list_all (\<lambda>(field, min_val, max_val).
        dict_get d field = JNull \<or> num_of (dict_get d field) \<noteq> None) ranges"

section \<open>Line reader and record decoder\<close>

text \<open>Lines 110-111: \<^verbatim>\<open>if "PM25" in data: data["PM2.5"] = data.pop("PM25")\<close>.\<close>

definition rename_pm25 :: "dict \<Rightarrow> dict" where
  "rename_pm25 data =
     (case map_of data ''PM25'' of
        None \<Rightarrow> data
      | Some v \<Rightarrow> AList.update ''PM2.5'' v (AList.delete ''PM25'' data))"

text \<open>
  The body of the \<^verbatim>\<open>try\<close> block of \<^verbatim>\<open>read_arduino_data\<close> after the read. On a decoded
  value that is no dictionary the membership test, \<^verbatim>\<open>pop\<close> or \<^verbatim>\<open>get\<close> raises: a list
  containing "PM25" fails in \<^verbatim>\<open>pop\<close> with \<^verbatim>\<open>TypeError\<close>, any other list and every string
  have no \<^verbatim>\<open>get\<close> or \<^verbatim>\<open>pop\<close>, and null, booleans and numbers are not iterable.
  The result \<open>Inr None\<close> is the fall-through to \<^verbatim>\<open>return None\<close> after a record that the
  validator judged invalid.
\<close>

definition read_try :: "lib \<Rightarrow> bytes \<Rightarrow> exn + dict option" where
  "read_try L raw =
     (case decode_utf8 L raw of
        None \<Rightarrow> Inl UnicodeDecodeError
      | Some text \<Rightarrow>
          (case json_loads L (strip L text) of
             None \<Rightarrow> Inl JSONDecodeError
           | Some (JObj d) \<Rightarrow>
               (let data = rename_pm25 d in
                case validate_sensor_data data of
                  Inl e \<Rightarrow> Inl e
                | Inr ok \<Rightarrow> Inr (if ok then Some data else None))
           | Some (JArr xs) \<Rightarrow>
               (if JStr ''PM25'' \<in> set xs then Inl TypeError else Inl AttributeError)
           | Some (JStr s) \<Rightarrow> Inl AttributeError
           | Some _ \<Rightarrow> Inl TypeError))"

text \<open>
  \<^verbatim>\<open>read_arduino_data\<close>: no read without a port; otherwise one \<^verbatim>\<open>readline\<close>, and every
  exception of the body is caught and ends in \<^verbatim>\<open>return None\<close>.
\<close>

definition read_arduino_data :: "lib \<Rightarrow> state \<Rightarrow> dict option \<times> state" where
  "read_arduino_data L st =
     (case ser st of
        None \<Rightarrow> (None, st)
      | Some buf \<Rightarrow>
          (let (raw, rest) = readline buf;
               st' = st\<lparr>ser := Some rest, calls := calls st @ [Readline]\<rparr>
           in (case read_try L raw of Inl e \<Rightarrow> None | Inr r \<Rightarrow> r, st')))"

text \<open>
  The stage at which a read fails, in the words of the specification: the line reader
  fails with \<open>ConnectionUnavailable\<close> when no stream is open and with \<open>Timeout\<close> when no
  line arrives within the bound, that is, when the bytes received hold no line feed; the
  bytes read fail with \<open>DecodeError\<close> when they are not valid text, with
  \<open>MalformedPayload\<close> when the text is not structured data or not an object, and with
  \<open>ValidationFailed\<close> when the validator does not accept the record.
\<close>

datatype stage_failure =
    ConnectionUnavailable
  | Timeout
  | DecodeError
  | MalformedPayload
  | ValidationFailed

definition decode_failure :: "lib \<Rightarrow> bytes \<Rightarrow> stage_failure option" where
  "decode_failure L raw =
     (case decode_utf8 L raw of
        None \<Rightarrow> Some DecodeError
      | Some text \<Rightarrow>
          (case json_loads L (strip L text) of
             None \<Rightarrow> Some MalformedPayload
           | Some (JObj d) \<Rightarrow>
               if validate_sensor_data (rename_pm25 d) = Inr True then None
               else Some ValidationFailed
           | Some _ \<Rightarrow> Some MalformedPayload))"

definition read_failure :: "lib \<Rightarrow> state \<Rightarrow> stage_failure option" where
  "read_failure L st =
     (case ser st of
        None \<Rightarrow> Some ConnectionUnavailable
      | Some buf \<Rightarrow>
          if 10 \<notin> set buf then Some Timeout
          else decode_failure L (fst (readline buf)))"

section \<open>Service surface\<close>

record health =
  serial_connected :: bool
  model_loaded :: bool
  required_features :: "string list"

definition health_check :: "state \<Rightarrow> health" where
  "health_check st =
     \<lparr>serial_connected = (ser st \<noteq> None),
      model_loaded = (model st \<noteq> None),
      required_features = REQUIRED_FEATURES\<rparr>"

record response =
  aqi :: real
  status :: string
  sensor_data :: dict

text \<open>
  The dictionary comprehension of line 144:
  \<^verbatim>\<open>{feature: sensor_data[feature] for feature in REQUIRED_FEATURES}\<close>.
\<close>

fun build_input :: "string list \<Rightarrow> dict \<Rightarrow> dict \<Rightarrow> exn + dict" where
  "build_input [] sd acc = Inr acc"
| "build_input (feature # fs) sd acc =
     (case map_of sd feature of
        None \<Rightarrow> Inl (KeyError feature)
      | Some v \<Rightarrow> build_input fs sd (AList.update feature v acc))"

text \<open>The \<^verbatim>\<open>try\<close> block of \<^verbatim>\<open>get_aqi_prediction\<close>, lines 142-163.\<close>

definition predict_try :: "lib \<Rightarrow> dict \<Rightarrow> state \<Rightarrow> (exn + response) \<times> state" where
  "predict_try L sd st =
     (case build_input REQUIRED_FEATURES sd [] of
        Inl e \<Rightarrow> (Inl e, st)
      | Inr input_data \<Rightarrow>
          (case model st of
             None \<Rightarrow> (Inl (HTTPException 500 ML_model_not_loaded), st)
           | Some m \<Rightarrow>
               (let st' = st\<lparr>calls := calls st @ [Predict input_data]\<rparr> in
                case predict m input_data of
                  Inl e \<Rightarrow> (Inl e, st')
                | Inr prediction \<Rightarrow>
                    (Inr \<lparr>aqi = round_ndigits L prediction 2,
                          status = get_aqi_status prediction,
                          sensor_data =
                            AList.update ''hum'' (dict_get sd ''hum'')
                              (AList.update ''temp'' (dict_get sd ''temp'') input_data)\<rparr>,
                     st'))))"

text \<open>
  \<^verbatim>\<open>get_aqi_prediction\<close>: \<^verbatim>\<open>not sensor_data\<close> holds for \<^verbatim>\<open>None\<close> and for the empty
  dictionary; every exception of the \<^verbatim>\<open>try\<close> block, the \<^verbatim>\<open>HTTPException\<close> raised
  inside it included, is caught by \<^verbatim>\<open>except Exception\<close> and raised again as a
  prediction error.
\<close>

definition get_aqi_prediction :: "lib \<Rightarrow> state \<Rightarrow> (exn + response) \<times> state" where
  "get_aqi_prediction L st =
     (case read_arduino_data L st of
        (None, st1) \<Rightarrow> (Inl (HTTPException 500 Failed_to_read_sensor_data), st1)
      | (Some sd, st1) \<Rightarrow>
          if sd = [] then (Inl (HTTPException 500 Failed_to_read_sensor_data), st1)
          else
            (case predict_try L sd st1 of
               (Inl e, st2) \<Rightarrow> (Inl (HTTPException 500 (Prediction_error e)), st2)
             | (Inr r, st2) \<Rightarrow> (Inr r, st2)))"

text \<open>
  The service as a whole: the two routes, and bytes arriving at an open port between
  requests.
\<close>

datatype event = GET_api_health | GET_api_aqi | Bytes_arrive bytes

datatype reply = Health_reply health | Aqi_reply "exn + response"

fun serve :: "lib \<Rightarrow> state \<Rightarrow> event list \<Rightarrow> reply list \<times> state" where
  "serve L st [] = ([], st)"
| "serve L st (GET_api_health # evs) =
     (let (rs, st') = serve L st evs in (Health_reply (health_check st) # rs, st'))"
| "serve L st (GET_api_aqi # evs) =
     (let (r, st1) = get_aqi_prediction L st;
          (rs, st') = serve L st1 evs
      in (Aqi_reply r # rs, st'))"
| "serve L st (Bytes_arrive bs # evs) =
     serve L (st\<lparr>ser := map_option (\<lambda>buf. buf @ bs) (ser st)\<rparr>) evs"

text \<open>
  The replies of a service without a model: a health reply that reports the model as not
  loaded, and a prediction reply that is the sensor-read failure or the "ML model not
  loaded" exception as the handler's \<^verbatim>\<open>except Exception\<close> raises it again.
\<close>

definition degraded_reply :: "reply \<Rightarrow> bool" where
  "degraded_reply r =
     (case r of
        Health_reply h \<Rightarrow> \<not> model_loaded h
      | Aqi_reply a \<Rightarrow>
          a = Inl (HTTPException 500 Failed_to_read_sensor_data) \<or>
          a = Inl (HTTPException 500 (Prediction_error (HTTPException 500 ML_model_not_loaded))))"

section \<open>Example inputs\<close>

text \<open>
  The examples run the service on concrete lines. \<open>ascii\<close> gives the bytes of an ASCII
  text. \<open>lib_for line j\<close> is the Python library restricted to one line: it decodes the
  bytes of \<open>line\<close>, with or without a line feed after them, strips that line feed, and
  parses \<open>line\<close> to \<open>j\<close>, which is \<^verbatim>\<open>json.loads(line)\<close>; empty input decodes to the
  empty text. Its \<open>round_ndigits\<close> is only ever applied to 42.0, the one prediction of the
  stub model below, which \<^verbatim>\<open>round(42.0, 2)\<close> returns as it is.
\<close>

definition ascii :: "string \<Rightarrow> bytes" where
  "ascii s = map of_char s"

definition lib_for :: "string \<Rightarrow> json \<Rightarrow> lib" where
  "lib_for line j =
     \<lparr>decode_utf8 =
        (\<lambda>b. if b = ascii line @ [10] then Some (line @ [CHR 0x0A])
             else if b = ascii line then Some line
             else if b = [] then Some [] else None),
      strip = (\<lambda>s. if s = line @ [CHR 0x0A] then line else s),
      json_loads = (\<lambda>s. if s = line then Some j else None),
      round_ndigits = (\<lambda>x n. x)\<rparr>"

definition example_record :: dict where
  "example_record =
     [(''PM2.5'', JNum 10), (''PM10'', JNum 20), (''NH3'', JNum 5), (''CO'', JNum 1)]"

text \<open>
  The line of the specification's example with the firmware alias, and what
  \<^verbatim>\<open>json.loads\<close> makes of it; an object that holds the alias and the canonical key.
\<close>

definition line_alias :: string where
  \<open>line_alias = ''{"PM25": 40, "PM10": 60, "NH3": 10, "CO": 2}''\<close>

definition obj_alias :: dict where
  "obj_alias = [(''PM25'', JNum 40), (''PM10'', JNum 60), (''NH3'', JNum 10), (''CO'', JNum 2)]"

definition obj_both :: dict where
  "obj_both = [(''PM25'', JNum 40), (''PM2.5'', JNum 7), (''PM10'', JNum 60)]"

text \<open>
  A stub model that maps every input to 42.0, with the configured feature order and with
  the first two features swapped; a startup in which the swapped model is loaded and the
  serial port fails to open, and one in which the port opens.
\<close>

definition stub_model :: Model where
  "stub_model = \<lparr>feature_names_in = Some REQUIRED_FEATURES, predict = (\<lambda>input. Inr 42)\<rparr>"

definition swapped_model :: Model where
  "swapped_model =
     \<lparr>feature_names_in = Some [''PM10'', ''PM2.5'', ''NH3'', ''CO''],
      predict = (\<lambda>input. Inr 42)\<rparr>"

definition env_no_port :: startup_env where
  "env_no_port =
     \<lparr>model_file_exists = True, joblib_load = Inr swapped_model,
      serial_Serial = Inl SerialException\<rparr>"

definition env_port :: startup_env where
  "env_port =
     \<lparr>model_file_exists = True, joblib_load = Inr swapped_model, serial_Serial = Inr []\<rparr>"

definition state_alias :: state where
  "state_alias = \<lparr>ser = Some (ascii line_alias @ [10]), model = Some stub_model, calls = []\<rparr>"

text \<open>
  The same line arriving without a line feed, so that the read ends with the wait; a
  record without "PM10" whose "PM2.5" holds a text.
\<close>

definition state_no_line_feed :: state where
  "state_no_line_feed = \<lparr>ser = Some (ascii line_alias), model = Some stub_model, calls = []\<rparr>"

definition record_text_value :: dict where
  "record_text_value = [(''PM2.5'', JStr ''x''), (''NH3'', JNum 5), (''CO'', JNum 1)]"

section \<open>Properties of the status classifier\<close>

lemma bucket_rank_status:
  "bucket_rank (get_aqi_status x) =
     (if x \<le> 50 then 0 else if x \<le> 100 then 1 else if x \<le> 150 then 2
      else if x \<le> 200 then 3 else if x \<le> 300 then 4 else 5)"
  by (simp add: bucket_rank_def get_aqi_status_def status_order_def)

text \<open>
  Claim C2. The status classifier is a total function of the real AQI value x with inclusive
  upper thresholds: it returns "Good" exactly when x <= 50, "Moderate" exactly when
  50 < x <= 100, "Unhealthy for Sensitive Groups" exactly when 100 < x <= 150,
  "Unhealthy" exactly when 150 < x <= 200, "Very Unhealthy" exactly when
  200 < x <= 300 and "Hazardous" exactly when x > 300.
\<close>

theorem get_aqi_status_thresholds:
  "(get_aqi_status x = ''Good'' \<longleftrightarrow> x \<le> 50) \<and>
   (get_aqi_status x = ''Moderate'' \<longleftrightarrow> 50 < x \<and> x \<le> 100) \<and>
   (get_aqi_status x = ''Unhealthy for Sensitive Groups'' \<longleftrightarrow> 100 < x \<and> x \<le> 150) \<and>
   (get_aqi_status x = ''Unhealthy'' \<longleftrightarrow> 150 < x \<and> x \<le> 200) \<and>
   (get_aqi_status x = ''Very Unhealthy'' \<longleftrightarrow> 200 < x \<and> x \<le> 300) \<and>
   (get_aqi_status x = ''Hazardous'' \<longleftrightarrow> 300 < x)"
  by (simp add: get_aqi_status_def)

text \<open>
  Claim C10. The status classifier is monotone: for reals a <= b the bucket of a is at most
  the bucket of b in the order Good < Moderate < Unhealthy for Sensitive Groups <
  Unhealthy < Very Unhealthy < Hazardous.
\<close>

theorem get_aqi_status_mono:
  "a \<le> b \<Longrightarrow> bucket_rank (get_aqi_status a) \<le> bucket_rank (get_aqi_status b)"
  by (simp add: bucket_rank_status)

theorem get_aqi_status_mono_witness:
  "(50::real) \<le> 50.01 \<and> bucket_rank (get_aqi_status 50) \<le> bucket_rank (get_aqi_status 50.01)
   \<and> get_aqi_status 50 = ''Good'' \<and> get_aqi_status 50.01 = ''Moderate''"
  using get_aqi_status_mono [of 50 "50.01"] by (simp add: get_aqi_status_def)

section \<open>Properties of the record validator\<close>

lemma dict_get_update:
  "dict_get (AList.update k v d) k' = (if k' = k then v else dict_get d k')"
  by (simp add: dict_get_def update_conv')

lemma dict_get_delete:
  "dict_get (AList.delete k d) k' = (if k' = k then JNull else dict_get d k')"
  by (simp add: dict_get_def delete_conv')

lemma dict_get_absent: "k \<notin> fst ` set d \<Longrightarrow> dict_get d k = JNull"
  by (simp add: dict_get_def map_of_eq_None_iff [THEN iffD2])

lemma validate_loop_True_iff:
  "validate_loop rs d = Inr True \<longleftrightarrow>
     (\<forall>(f, lo, hi) \<in> set rs.
        (dict_get d f = JNull \<and> f \<notin> set REQUIRED_FEATURES) \<or>
        (\<exists>x. num_of (dict_get d f) = Some x \<and> lo \<le> x \<and> x \<le> hi))"
proof (induction rs)
  case Nil
  show ?case by simp
next
  case (Cons r rs)
  obtain f lo hi where r: "r = (f, lo, hi)" by (cases r)
  show ?case
    unfolding r using Cons.IH
    by (cases "dict_get d f") (auto simp: Let_def split: option.splits)
qed

lemma validate_loop_numeric:
  "\<forall>r \<in> set rs. dict_get d (fst r) = JNull \<or> num_of (dict_get d (fst r)) \<noteq> None \<Longrightarrow>
   validate_loop rs d \<noteq> Inl e"
proof (induction rs)
  case Nil
  show ?case by simp
next
  case (Cons r rs)
  obtain f lo hi where r: "r = (f, lo, hi)" by (cases r)
  from Cons.prems have
    head: "dict_get d f = JNull \<or> num_of (dict_get d f) \<noteq> None" and
    rest: "\<forall>r \<in> set rs. dict_get d (fst r) = JNull \<or> num_of (dict_get d (fst r)) \<noteq> None"
    by (simp_all add: r)
  from head Cons.IH [OF rest] show ?case
    by (auto simp: r Let_def split: option.splits)
qed

lemma validate_loop_error: "validate_loop rs d = Inl e \<Longrightarrow> e = TypeError"
proof (induction rs)
  case Nil
  then show ?case by simp
next
  case (Cons r rs)
  obtain f lo hi where r: "r = (f, lo, hi)" by (cases r)
  from Cons.prems Cons.IH show ?case
    by (auto simp: r Let_def split: option.splits if_splits)
qed

lemma validate_loop_optional_added:
  "g \<notin> fst ` set d \<Longrightarrow> g \<notin> set REQUIRED_FEATURES \<Longrightarrow>
   \<forall>(f, lo, hi) \<in> set rs. f = g \<longrightarrow> lo \<le> v \<and> v \<le> hi \<Longrightarrow>
   validate_loop rs (AList.update g (JNum v) d) = validate_loop rs d"
proof (induction rs)
  case Nil
  show ?case by simp
next
  case (Cons r rs)
  obtain f lo hi where r: "r = (f, lo, hi)" by (cases r)
  from Cons.prems(3) have "\<forall>(f, lo, hi) \<in> set rs. f = g \<longrightarrow> lo \<le> v \<and> v \<le> hi" by simp
  then have IH: "validate_loop rs (AList.update g (JNum v) d) = validate_loop rs d"
    by (rule Cons.IH [OF Cons.prems(1,2)])
  show ?case
  proof (cases "f = g")
    case True
    with Cons.prems(3) have "lo \<le> v" "v \<le> hi" by (auto simp: r)
    with True Cons.prems(1,2) show ?thesis
      by (simp add: r dict_get_update dict_get_absent IH)
  next
    case False
    then show ?thesis
      by (simp add: r dict_get_update IH Let_def split: option.splits)
  qed
qed

lemma validate_loop_delete_optional:
  assumes "g \<notin> set REQUIRED_FEATURES" and "validate_loop rs d = Inr True"
  shows "validate_loop rs (AList.delete g d) = Inr True"
  unfolding validate_loop_True_iff
proof (intro ballI)
  fix r assume mem: "r \<in> set rs"
  obtain f lo hi where r: "r = (f, lo, hi)" by (cases r)
  from assms(2) mem have ok:
    "(dict_get d f = JNull \<and> f \<notin> set REQUIRED_FEATURES) \<or>
     (\<exists>x. num_of (dict_get d f) = Some x \<and> lo \<le> x \<and> x \<le> hi)"
    unfolding validate_loop_True_iff r by blast
  show "case r of (f, lo, hi) \<Rightarrow>
          (dict_get (AList.delete g d) f = JNull \<and> f \<notin> set REQUIRED_FEATURES) \<or>
          (\<exists>x. num_of (dict_get (AList.delete g d) f) = Some x \<and> lo \<le> x \<and> x \<le> hi)"
  proof (cases "f = g")
    case True
    with assms(1) show ?thesis by (simp add: r dict_get_delete)
  next
    case False
    with ok show ?thesis by (simp add: r dict_get_delete)
  qed
qed

lemma valid_has_required:
  "validate_sensor_data sd = Inr True \<Longrightarrow> f \<in> set REQUIRED_FEATURES \<Longrightarrow> map_of sd f \<noteq> None"
proof -
  assume v: "validate_sensor_data sd = Inr True" and f: "f \<in> set REQUIRED_FEATURES"
  from f obtain lo hi where "(f, lo, hi) \<in> set ranges"
    by (auto simp: REQUIRED_FEATURES_def ranges_def)
  with v f have "\<exists>x. num_of (dict_get sd f) = Some x"
    unfolding validate_sensor_data_def validate_loop_True_iff by blast
  then show ?thesis by (auto simp: dict_get_def split: option.splits)
qed

lemma validate_loop_update_other:
  "f \<notin> fst ` set rs \<Longrightarrow> validate_loop rs (AList.update f v d) = validate_loop rs d"
proof (induction rs)
  case Nil
  show ?case by simp
next
  case (Cons r rs)
  obtain g lo hi where r: "r = (g, lo, hi)" by (cases r)
  from Cons.prems have neq: "g \<noteq> f" and notin: "f \<notin> fst ` set rs" by (auto simp: r)
  from notin have IH: "validate_loop rs (AList.update f v d) = validate_loop rs d"
    by (rule Cons.IH)
  show ?case by (simp add: r dict_get_update neq IH Let_def split: option.splits)
qed

lemma validate_loop_update:
  "distinct (map fst rs) \<Longrightarrow> (f, lo, hi) \<in> set rs \<Longrightarrow> validate_loop rs d = Inr True \<Longrightarrow>
   validate_loop rs (AList.update f (JNum x) d) = Inr (lo \<le> x \<and> x \<le> hi)"
proof (induction rs)
  case Nil
  then show ?case by simp
next
  case (Cons r rs)
  obtain g l h where r: "r = (g, l, h)" by (cases r)
  from Cons.prems(3) have rest: "validate_loop rs d = Inr True"
    by (auto simp: r Let_def split: if_splits option.splits)
  show ?case
  proof (cases "g = f")
    case True
    with Cons.prems(1,2) have "l = lo" "h = hi" "f \<notin> fst ` set rs"
      by (force simp: r)+
    then show ?thesis
      using rest True by (simp add: r dict_get_update validate_loop_update_other)
  next
    case False
    with Cons.prems(2) have mem: "(f, lo, hi) \<in> set rs" by (simp add: r)
    from Cons.prems(1) have dist: "distinct (map fst rs)" by simp
    have same: "dict_get (AList.update f (JNum x) d) g = dict_get d g"
      using False by (simp add: dict_get_update)
    from Cons.prems(3) have head: "validate_loop ((g, l, h) # rs) d = Inr True" by (simp add: r)
    show ?thesis
      using Cons.IH [OF dist mem rest] head rest
      by (auto simp: r same Let_def split: if_splits option.splits)
  qed
qed

lemma ranges_facts:
  "distinct (map fst ranges)" "\<forall>(f, lo, hi) \<in> set ranges. lo \<le> hi"
  by (simp_all add: ranges_def)

lemma validate_boundary_row:
  "(f, lo, hi) \<in> set ranges \<Longrightarrow> validate_sensor_data d = Inr True \<Longrightarrow>
     validate_sensor_data (AList.update f (JNum lo) d) = Inr True \<and>
     validate_sensor_data (AList.update f (JNum hi) d) = Inr True \<and>
     validate_sensor_data (AList.update f (JNum (lo - 1)) d) = Inr False \<and>
     validate_sensor_data (AList.update f (JNum (hi + 1)) d) = Inr False"
  using ranges_facts(2)
  by (auto simp: validate_sensor_data_def validate_loop_update [OF ranges_facts(1)])

lemma example_record_valid: "validate_sensor_data example_record = Inr True"
  by (simp add: validate_sensor_data_def ranges_def example_record_def dict_get_def
      REQUIRED_FEATURES_def)

text \<open>
  Claim C3. For every field of the validation-range table, with the bounds the table
  declares (PM2.5, PM10 and CO in [0,1000], NH3 in [0,500], temp in [-40,85], hum in
  [0,100]): in a record that is otherwise valid, a value equal to the declared minimum or
  maximum is judged valid, and a value one unit below the minimum or one unit above the
  maximum makes the record invalid. Each field is listed with its minimum, its maximum, the
  value below and the value above.
\<close>

theorem validate_sensor_data_boundary:
  "validate_sensor_data d = Inr True \<Longrightarrow>
     validate_sensor_data (AList.update ''PM2.5'' (JNum 0) d) = Inr True \<and>
     validate_sensor_data (AList.update ''PM2.5'' (JNum 1000) d) = Inr True \<and>
     validate_sensor_data (AList.update ''PM2.5'' (JNum (- 1)) d) = Inr False \<and>
     validate_sensor_data (AList.update ''PM2.5'' (JNum 1001) d) = Inr False \<and>
     validate_sensor_data (AList.update ''PM10'' (JNum 0) d) = Inr True \<and>
     validate_sensor_data (AList.update ''PM10'' (JNum 1000) d) = Inr True \<and>
     validate_sensor_data (AList.update ''PM10'' (JNum (- 1)) d) = Inr False \<and>
     validate_sensor_data (AList.update ''PM10'' (JNum 1001) d) = Inr False \<and>
     validate_sensor_data (AList.update ''CO'' (JNum 0) d) = Inr True \<and>
     validate_sensor_data (AList.update ''CO'' (JNum 1000) d) = Inr True \<and>
     validate_sensor_data (AList.update ''CO'' (JNum (- 1)) d) = Inr False \<and>
     validate_sensor_data (AList.update ''CO'' (JNum 1001) d) = Inr False \<and>
     validate_sensor_data (AList.update ''NH3'' (JNum 0) d) = Inr True \<and>
     validate_sensor_data (AList.update ''NH3'' (JNum 500) d) = Inr True \<and>
     validate_sensor_data (AList.update ''NH3'' (JNum (- 1)) d) = Inr False \<and>
     validate_sensor_data (AList.update ''NH3'' (JNum 501) d) = Inr False \<and>
     validate_sensor_data (AList.update ''temp'' (JNum (- 40)) d) = Inr True \<and>
     validate_sensor_data (AList.update ''temp'' (JNum 85) d) = Inr True \<and>
     validate_sensor_data (AList.update ''temp'' (JNum (- 41)) d) = Inr False \<and>
     validate_sensor_data (AList.update ''temp'' (JNum 86) d) = Inr False \<and>
     validate_sensor_data (AList.update ''hum'' (JNum 0) d) = Inr True \<and>
     validate_sensor_data (AList.update ''hum'' (JNum 100) d) = Inr True \<and>
     validate_sensor_data (AList.update ''hum'' (JNum (- 1)) d) = Inr False \<and>
     validate_sensor_data (AList.update ''hum'' (JNum 101) d) = Inr False"
proof -
  assume v: "validate_sensor_data d = Inr True"
  have rows:
    "(''PM2.5'', 0, 1000) \<in> set ranges" "(''PM10'', 0, 1000) \<in> set ranges"
    "(''CO'', 0, 1000) \<in> set ranges" "(''NH3'', 0, 500) \<in> set ranges"
    "(''temp'', -40, 85) \<in> set ranges" "(''hum'', 0, 100) \<in> set ranges"
    by (simp_all add: ranges_def)
  from validate_boundary_row [OF rows(1) v] validate_boundary_row [OF rows(2) v]
    validate_boundary_row [OF rows(3) v] validate_boundary_row [OF rows(4) v]
    validate_boundary_row [OF rows(5) v] validate_boundary_row [OF rows(6) v]
  show ?thesis by simp
qed

theorem validate_sensor_data_boundary_witness:
  "validate_sensor_data example_record = Inr True \<and>
     validate_sensor_data (AList.update ''PM2.5'' (JNum 0) example_record) = Inr True \<and>
     validate_sensor_data (AList.update ''PM2.5'' (JNum 1000) example_record) = Inr True \<and>
     validate_sensor_data (AList.update ''PM2.5'' (JNum (- 1)) example_record) = Inr False \<and>
     validate_sensor_data (AList.update ''PM2.5'' (JNum 1001) example_record) = Inr False \<and>
     validate_sensor_data (AList.update ''PM10'' (JNum 0) example_record) = Inr True \<and>
     validate_sensor_data (AList.update ''PM10'' (JNum 1000) example_record) = Inr True \<and>
     validate_sensor_data (AList.update ''PM10'' (JNum (- 1)) example_record) = Inr False \<and>
     validate_sensor_data (AList.update ''PM10'' (JNum 1001) example_record) = Inr False \<and>
     validate_sensor_data (AList.update ''CO'' (JNum 0) example_record) = Inr True \<and>
     validate_sensor_data (AList.update ''CO'' (JNum 1000) example_record) = Inr True \<and>
     validate_sensor_data (AList.update ''CO'' (JNum (- 1)) example_record) = Inr False \<and>
     validate_sensor_data (AList.update ''CO'' (JNum 1001) example_record) = Inr False \<and>
     validate_sensor_data (AList.update ''NH3'' (JNum 0) example_record) = Inr True \<and>
     validate_sensor_data (AList.update ''NH3'' (JNum 500) example_record) = Inr True \<and>
     validate_sensor_data (AList.update ''NH3'' (JNum (- 1)) example_record) = Inr False \<and>
     validate_sensor_data (AList.update ''NH3'' (JNum 501) example_record) = Inr False \<and>
     validate_sensor_data (AList.update ''temp'' (JNum (- 40)) example_record) = Inr True \<and>
     validate_sensor_data (AList.update ''temp'' (JNum 85) example_record) = Inr True \<and>
     validate_sensor_data (AList.update ''temp'' (JNum (- 41)) example_record) = Inr False \<and>
     validate_sensor_data (AList.update ''temp'' (JNum 86) example_record) = Inr False \<and>
     validate_sensor_data (AList.update ''hum'' (JNum 0) example_record) = Inr True \<and>
     validate_sensor_data (AList.update ''hum'' (JNum 100) example_record) = Inr True \<and>
     validate_sensor_data (AList.update ''hum'' (JNum (- 1)) example_record) = Inr False \<and>
     validate_sensor_data (AList.update ''hum'' (JNum 101) example_record) = Inr False"
  using validate_sensor_data_boundary [OF example_record_valid] example_record_valid
  by simp

text \<open>
  Claim C4, amended. A record that lacks one of the required features PM2.5, PM10, NH3, CO
  is never judged valid: the validator returns invalid for it, or raises
  \<^verbatim>\<open>TypeError\<close> when it meets a value that is no number in a field of the table before it
  reaches the missing feature; it returns invalid whenever the fields of the table hold
  numbers, whatever the other fields hold. The absence of an optional display field (temp,
  hum) never makes a record invalid: removing the field from a valid record leaves it valid,
  and a record without the field gets the verdict it gets with an in-range value for the
  field.
\<close>

theorem validate_sensor_data_missing:
  "(f \<in> set REQUIRED_FEATURES \<and> f \<notin> fst ` set d \<longrightarrow>
      (validate_sensor_data d = Inr False \<or> validate_sensor_data d = Inl TypeError) \<and>
      (numeric_fields d \<longrightarrow> validate_sensor_data d = Inr False)) \<and>
   (g \<in> {''temp'', ''hum''} \<longrightarrow>
      (validate_sensor_data d1 = Inr True \<longrightarrow>
         validate_sensor_data (AList.delete g d1) = Inr True) \<and>
      (g \<notin> fst ` set d2 \<and> (g, lo, hi) \<in> set ranges \<and> lo \<le> v \<and> v \<le> hi \<longrightarrow>
         validate_sensor_data (AList.update g (JNum v) d2) = validate_sensor_data d2))"
proof (intro conjI impI)
  assume a: "f \<in> set REQUIRED_FEATURES \<and> f \<notin> fst ` set d"
  then have null: "dict_get d f = JNull" by (simp add: dict_get_absent)
  from a have "\<exists>lo hi. (f, lo, hi) \<in> set ranges"
    by (auto simp: REQUIRED_FEATURES_def ranges_def)
  with a null have notTrue: "validate_sensor_data d \<noteq> Inr True"
    by (auto simp: validate_sensor_data_def validate_loop_True_iff)
  have err: "\<And>e. validate_sensor_data d = Inl e \<Longrightarrow> e = TypeError"
    unfolding validate_sensor_data_def by (rule validate_loop_error)
  from notTrue err
  show "validate_sensor_data d = Inr False \<or> validate_sensor_data d = Inl TypeError"
    by (cases "validate_sensor_data d") auto
  assume "numeric_fields d"
  then have "\<forall>r \<in> set ranges.
      dict_get d (fst r) = JNull \<or> num_of (dict_get d (fst r)) \<noteq> None"
    by (auto simp: numeric_fields_def list_all_iff)
  then have "\<And>e. validate_sensor_data d \<noteq> Inl e"
    unfolding validate_sensor_data_def by (rule validate_loop_numeric)
  with notTrue show "validate_sensor_data d = Inr False"
    by (cases "validate_sensor_data d") auto
next
  assume g: "g \<in> {''temp'', ''hum''}"
  assume "validate_sensor_data d1 = Inr True"
  moreover from g have "g \<notin> set REQUIRED_FEATURES" by (auto simp: REQUIRED_FEATURES_def)
  ultimately show "validate_sensor_data (AList.delete g d1) = Inr True"
    by (simp add: validate_sensor_data_def validate_loop_delete_optional)
next
  assume g: "g \<in> {''temp'', ''hum''}"
    and b: "g \<notin> fst ` set d2 \<and> (g, lo, hi) \<in> set ranges \<and> lo \<le> v \<and> v \<le> hi"
  from g have "g \<notin> set REQUIRED_FEATURES" by (auto simp: REQUIRED_FEATURES_def)
  moreover from b have "\<forall>(f, l, h) \<in> set ranges. f = g \<longrightarrow> l \<le> v \<and> v \<le> h"
    by (auto simp: ranges_def)
  ultimately show "validate_sensor_data (AList.update g (JNum v) d2) = validate_sensor_data d2"
    using b by (simp add: validate_sensor_data_def validate_loop_optional_added)
qed

theorem validate_sensor_data_missing_witness:
  "''PM2.5'' \<in> set REQUIRED_FEATURES \<and> ''PM2.5'' \<notin> fst ` set (AList.delete ''PM2.5'' example_record) \<and>
   numeric_fields (AList.delete ''PM2.5'' example_record) \<and>
   validate_sensor_data (AList.delete ''PM2.5'' example_record) = Inr False \<and>
   ''temp'' \<in> {''temp'', ''hum''} \<and>
   validate_sensor_data (AList.update ''temp'' (JNum 21) example_record) = Inr True \<and>
   validate_sensor_data (AList.delete ''temp'' (AList.update ''temp'' (JNum 21) example_record)) = Inr True \<and>
   ''temp'' \<notin> fst ` set example_record \<and> (''temp'', -40, 85) \<in> set ranges \<and>
   validate_sensor_data (AList.update ''temp'' (JNum 21) example_record) =
     validate_sensor_data example_record"
proof -
  have h1: "''PM2.5'' \<in> set REQUIRED_FEATURES \<and>
            ''PM2.5'' \<notin> fst ` set (AList.delete ''PM2.5'' example_record)"
    by (simp add: REQUIRED_FEATURES_def example_record_def)
  have h2: "numeric_fields (AList.delete ''PM2.5'' example_record)"
    by (simp add: numeric_fields_def ranges_def dict_get_def example_record_def)
  have h3: "''temp'' \<in> {''temp'', ''hum''}" by simp
  have h4: "validate_sensor_data (AList.update ''temp'' (JNum 21) example_record) = Inr True"
    by (simp add: validate_sensor_data_def ranges_def example_record_def dict_get_def
        REQUIRED_FEATURES_def)
  have h5: "''temp'' \<notin> fst ` set example_record \<and> (''temp'', -40, 85) \<in> set ranges \<and>
            (-40::real) \<le> 21 \<and> (21::real) \<le> 85"
    by (simp add: example_record_def ranges_def)
  from validate_sensor_data_missing
         [of "''PM2.5''" "AList.delete ''PM2.5'' example_record" "''temp''"
             "AList.update ''temp'' (JNum 21) example_record" example_record "-40" 85 21]
       h1 h2 h3 h4 h5
  show ?thesis by simp
qed

text \<open>
  A record without "PM10" whose "PM2.5" holds the text "x": the comparison with the bounds
  of "PM2.5" raises before the loop reaches "PM10", so the validator returns nothing.
\<close>

theorem validate_sensor_data_raises_counterexample:
  "''PM10'' \<in> set REQUIRED_FEATURES \<and> ''PM10'' \<notin> fst ` set record_text_value \<and>
   validate_sensor_data record_text_value = Inl TypeError \<and>
   validate_sensor_data record_text_value \<noteq> Inr False"
  by (simp add: REQUIRED_FEATURES_def record_text_value_def validate_sensor_data_def
      ranges_def dict_get_def)

section \<open>Properties of the record decoder\<close>

lemma rename_pm25_alias:
  assumes "map_of d ''PM25'' = Some v"
  shows "map_of (rename_pm25 d) = (map_of d)(''PM25'' := None, ''PM2.5'' \<mapsto> v)"
    and "''PM25'' \<notin> fst ` set (rename_pm25 d)"
  using assms by (simp_all add: rename_pm25_def update_conv' delete_conv' dom_update delete_notin_dom)

lemma rename_pm25_no_alias: "map_of d ''PM25'' = None \<Longrightarrow> rename_pm25 d = d"
  by (simp add: rename_pm25_def)

lemma read_arduino_data_open:
  "ser st = Some buf \<Longrightarrow>
   read_arduino_data L st =
     (case read_try L (fst (readline buf)) of Inl e \<Rightarrow> None | Inr r \<Rightarrow> r,
      st\<lparr>ser := Some (snd (readline buf)), calls := calls st @ [Readline]\<rparr>)"
  by (simp add: read_arduino_data_def split: prod.splits)

lemma read_try_object:
  "decode_utf8 L raw = Some text \<Longrightarrow> json_loads L (strip L text) = Some (JObj d) \<Longrightarrow>
   read_try L raw =
     (case validate_sensor_data (rename_pm25 d) of
        Inl e \<Rightarrow> Inl e
      | Inr ok \<Rightarrow> Inr (if ok then Some (rename_pm25 d) else None))"
  by (simp add: read_try_def Let_def)

lemma read_arduino_data_valid:
  "fst (read_arduino_data L st) = Some sd \<Longrightarrow> validate_sensor_data sd = Inr True"
  by (cases "ser st")
     (auto simp: read_arduino_data_def read_try_def Let_def
        split: option.splits json.splits sum.splits if_splits prod.splits)

text \<open>
  Claim C5. When the decoded object holds the firmware alias key "PM25", the decoder renames
  it to "PM2.5" before validation and changes nothing else: the record that is validated
  and passed onward holds under "PM2.5" the value that was under "PM25", has no "PM25" key,
  and agrees with the decoded object on every other key. For the line
  {"PM25": 40, "PM10": 60, "NH3": 10, "CO": 2} the record passed onward has "PM2.5" = 40,
  no "PM25" key, and "PM10", "NH3", "CO" unchanged.
\<close>

theorem read_arduino_data_renames_alias:
  "ser st = Some buf \<Longrightarrow> decode_utf8 L (fst (readline buf)) = Some text \<Longrightarrow>
   json_loads L (strip L text) = Some (JObj d) \<Longrightarrow> map_of d ''PM25'' = Some v \<Longrightarrow>
   (let data = rename_pm25 d in
      map_of data ''PM2.5'' = Some v \<and> ''PM25'' \<notin> fst ` set data \<and>
      (\<forall>k. k \<noteq> ''PM25'' \<and> k \<noteq> ''PM2.5'' \<longrightarrow> map_of data k = map_of d k) \<and>
      fst (read_arduino_data L st) =
        (if validate_sensor_data data = Inr True then Some data else None))"
  by (auto simp: Let_def rename_pm25_alias read_arduino_data_open read_try_object
      split: sum.splits)

lemma readline_line_alias:
  "readline (ascii line_alias @ [10]) = (ascii line_alias @ [10], [])"
  by (simp add: readline_def ascii_def line_alias_def)

lemma rename_pm25_obj_alias: "rename_pm25 obj_alias = [(''PM10'', JNum 60), (''NH3'', JNum 10), (''CO'', JNum 2), (''PM2.5'', JNum 40)]"
  by (simp add: rename_pm25_def obj_alias_def)

lemma renamed_obj_alias_valid: "validate_sensor_data [(''PM10'', JNum 60), (''NH3'', JNum 10), (''CO'', JNum 2), (''PM2.5'', JNum 40)] = Inr True"
  by (simp add: validate_sensor_data_def ranges_def dict_get_def REQUIRED_FEATURES_def)

theorem read_arduino_data_renames_alias_witness:
  "fst (read_arduino_data (lib_for line_alias (JObj obj_alias))
          \<lparr>ser = Some (ascii line_alias @ [10]), model = None, calls = []\<rparr>) =
     Some [(''PM10'', JNum 60), (''NH3'', JNum 10), (''CO'', JNum 2), (''PM2.5'', JNum 40)]"
proof -
  let ?st = "\<lparr>ser = Some (ascii line_alias @ [10]), model = None, calls = []\<rparr>"
  let ?L = "lib_for line_alias (JObj obj_alias)"
  have h1: "ser ?st = Some (ascii line_alias @ [10])" by simp
  have h2: "decode_utf8 ?L (fst (readline (ascii line_alias @ [10]))) = Some (line_alias @ [CHR 0x0A])"
    by (simp add: readline_line_alias lib_for_def)
  have h3: "json_loads ?L (strip ?L (line_alias @ [CHR 0x0A])) = Some (JObj obj_alias)"
    by (simp add: lib_for_def)
  have h4: "map_of obj_alias ''PM25'' = Some (JNum 40)" by (simp add: obj_alias_def)
  from read_arduino_data_renames_alias [OF h1 h2 h3 h4] show ?thesis
    by (simp add: Let_def rename_pm25_obj_alias renamed_obj_alias_valid)
qed


lemma distinct_count_list: "distinct xs \<Longrightarrow> x \<in> set xs \<Longrightarrow> count_list xs x = 1"
  by (induction xs) auto

text \<open>
  Claim C9. When the decoded object holds both the alias key "PM25" and the canonical key
  "PM2.5", the rename overwrites the canonical entry: the resulting record has exactly one
  "PM2.5" key, it holds the value that was under "PM25", the alias key is gone and the value
  that was under "PM2.5" is no longer stored under it.
\<close>

theorem rename_pm25_overwrites:
  "distinct (map fst d) \<Longrightarrow> map_of d ''PM25'' = Some v \<Longrightarrow> map_of d ''PM2.5'' = Some w \<Longrightarrow>
   map_of (rename_pm25 d) ''PM2.5'' = Some v \<and>
   ''PM25'' \<notin> fst ` set (rename_pm25 d) \<and>
   count_list (map fst (rename_pm25 d)) ''PM2.5'' = 1 \<and>
   (\<forall>x. (''PM2.5'', x) \<in> set (rename_pm25 d) \<longrightarrow> x = v)"
proof -
  assume dist: "distinct (map fst d)" and pm25: "map_of d ''PM25'' = Some v"
    and "map_of d ''PM2.5'' = Some w"
  have dist': "distinct (map fst (rename_pm25 d))"
    using dist pm25 by (simp add: rename_pm25_def distinct_update distinct_delete)
  have val: "map_of (rename_pm25 d) ''PM2.5'' = Some v"
    using pm25 by (simp add: rename_pm25_alias)
  then have "(''PM2.5'', v) \<in> set (rename_pm25 d)" by (rule map_of_SomeD)
  then have "''PM2.5'' \<in> set (map fst (rename_pm25 d))" by force
  with dist' have one: "count_list (map fst (rename_pm25 d)) ''PM2.5'' = 1"
    by (simp add: distinct_count_list)
  have only: "\<forall>x. (''PM2.5'', x) \<in> set (rename_pm25 d) \<longrightarrow> x = v"
  proof (intro allI impI)
    fix x assume "(''PM2.5'', x) \<in> set (rename_pm25 d)"
    with dist' have "map_of (rename_pm25 d) ''PM2.5'' = Some x" by simp
    with val show "x = v" by simp
  qed
  from val one only pm25 show ?thesis by (simp add: rename_pm25_alias)
qed

theorem rename_pm25_overwrites_witness:
  "distinct (map fst obj_both) \<and> map_of obj_both ''PM25'' = Some (JNum 40) \<and>
   map_of obj_both ''PM2.5'' = Some (JNum 7) \<and>
   rename_pm25 obj_both = [(''PM2.5'', JNum 40), (''PM10'', JNum 60)] \<and>
   count_list (map fst (rename_pm25 obj_both)) ''PM2.5'' = 1 \<and>
   (''PM2.5'', JNum 7) \<notin> set (rename_pm25 obj_both)"
proof -
  have h1: "distinct (map fst obj_both)" by (simp add: obj_both_def)
  have h2: "map_of obj_both ''PM25'' = Some (JNum 40)" by (simp add: obj_both_def)
  have h3: "map_of obj_both ''PM2.5'' = Some (JNum 7)" by (simp add: obj_both_def)
  have h4: "rename_pm25 obj_both = [(''PM2.5'', JNum 40), (''PM10'', JNum 60)]"
    by (simp add: rename_pm25_def obj_both_def)
  from rename_pm25_overwrites [OF h1 h2 h3] h1 h2 h3 h4 show ?thesis by auto
qed

section \<open>Properties of the prediction query\<close>

lemma build_input_required:
  "build_input REQUIRED_FEATURES sd [] = Inr input \<Longrightarrow>
   input = map (\<lambda>f. (f, dict_get sd f)) REQUIRED_FEATURES \<and>
   (\<forall>f \<in> set REQUIRED_FEATURES. map_of sd f \<noteq> None)"
  by (auto simp: REQUIRED_FEATURES_def dict_get_def split: option.splits)

lemma read_arduino_data_model: "model (snd (read_arduino_data L st)) = model st"
  by (simp add: read_arduino_data_def split: option.splits prod.splits)

lemma predict_try_success:
  "fst (predict_try L sd st) = Inr r \<Longrightarrow>
   \<exists>m p. model st = Some m \<and>
     predict m (map (\<lambda>f. (f, dict_get sd f)) REQUIRED_FEATURES) = Inr p \<and>
     r = \<lparr>aqi = round_ndigits L p 2, status = get_aqi_status p,
          sensor_data = map (\<lambda>f. (f, dict_get sd f)) (REQUIRED_FEATURES @ [''temp'', ''hum''])\<rparr> \<and>
     (\<forall>f \<in> set REQUIRED_FEATURES. map_of sd f \<noteq> None)"
proof -
  assume a: "fst (predict_try L sd st) = Inr r"
  then obtain input where b: "build_input REQUIRED_FEATURES sd [] = Inr input"
    by (auto simp: predict_try_def split: sum.splits)
  note c = build_input_required [OF b]
  from a b obtain m where m: "model st = Some m"
    by (auto simp: predict_try_def split: option.splits)
  from a b m obtain p where p: "predict m input = Inr p"
    by (auto simp: predict_try_def Let_def split: sum.splits)
  from a b m p have "r = \<lparr>aqi = round_ndigits L p 2, status = get_aqi_status p,
      sensor_data = AList.update ''hum'' (dict_get sd ''hum'')
         (AList.update ''temp'' (dict_get sd ''temp'') input)\<rparr>"
    by (auto simp: predict_try_def Let_def)
  with c m p show ?thesis by (auto simp: REQUIRED_FEATURES_def)
qed

text \<open>
  Claim C6, amended. Every successful prediction query returns the prediction of the model
  on the four required features as \<^verbatim>\<open>round(prediction, 2)\<close> gives it, the status bucket of
  the unrounded prediction, and an echo with exactly six keys in this order: the four required
  features with the values of the sensor record, then "temp" and "hum", each with the value
  of the record when it has the field and with null when it has not.
\<close>

theorem get_aqi_prediction_response:
  "fst (get_aqi_prediction L st) = Inr r \<Longrightarrow>
   \<exists>sd m p. fst (read_arduino_data L st) = Some sd \<and> model st = Some m \<and>
     predict m (map (\<lambda>f. (f, dict_get sd f)) REQUIRED_FEATURES) = Inr p \<and>
     aqi r = round_ndigits L p 2 \<and>
     status r = get_aqi_status p \<and>
     sensor_data r = map (\<lambda>f. (f, dict_get sd f)) (REQUIRED_FEATURES @ [''temp'', ''hum'']) \<and>
     (\<forall>f \<in> set REQUIRED_FEATURES. map_of sd f \<noteq> None)"
proof -
  assume a: "fst (get_aqi_prediction L st) = Inr r"
  obtain res st1 where rd: "read_arduino_data L st = (res, st1)" by (cases "read_arduino_data L st")
  with a obtain sd where sd: "res = Some sd" "sd \<noteq> []"
    by (cases res) (auto simp: get_aqi_prediction_def split: if_splits)
  from a rd sd have "fst (predict_try L sd st1) = Inr r"
    by (auto simp: get_aqi_prediction_def split: prod.splits sum.splits)
  from predict_try_success [OF this] obtain m p where
    mp: "model st1 = Some m"
      "predict m (map (\<lambda>f. (f, dict_get sd f)) REQUIRED_FEATURES) = Inr p"
      "r = \<lparr>aqi = round_ndigits L p 2, status = get_aqi_status p,
          sensor_data = map (\<lambda>f. (f, dict_get sd f)) (REQUIRED_FEATURES @ [''temp'', ''hum''])\<rparr>"
      "\<forall>f \<in> set REQUIRED_FEATURES. map_of sd f \<noteq> None"
    by blast
  from rd have "model st1 = model st" using read_arduino_data_model [of L st] by simp
  with mp(1) have m: "model st = Some m" by simp
  from rd sd m mp(2,3,4) show ?thesis by auto
qed

lemma read_state_alias:
  "read_arduino_data (lib_for line_alias (JObj obj_alias)) state_alias =
     (Some [(''PM10'', JNum 60), (''NH3'', JNum 10), (''CO'', JNum 2), (''PM2.5'', JNum 40)],
      state_alias\<lparr>ser := Some [], calls := [Readline]\<rparr>)"
  by (simp add: read_arduino_data_open [where buf = "ascii line_alias @ [10]"] state_alias_def
      readline_line_alias read_try_def lib_for_def Let_def rename_pm25_obj_alias
      renamed_obj_alias_valid)

text \<open>
  The echo of the specification's example line, which has no "temp" and no "hum": both
  keys are in the echo, holding null.
\<close>

theorem get_aqi_prediction_echo_counterexample:
  "fst (read_arduino_data (lib_for line_alias (JObj obj_alias)) state_alias) =
     Some [(''PM10'', JNum 60), (''NH3'', JNum 10), (''CO'', JNum 2), (''PM2.5'', JNum 40)] \<and>
   fst (get_aqi_prediction (lib_for line_alias (JObj obj_alias)) state_alias) =
     Inr \<lparr>aqi = 42, status = ''Good'',
          sensor_data =
            [(''PM2.5'', JNum 40), (''PM10'', JNum 60), (''NH3'', JNum 10), (''CO'', JNum 2),
             (''temp'', JNull), (''hum'', JNull)]\<rparr>"
  unfolding get_aqi_prediction_def read_state_alias
  by (simp add: predict_try_def REQUIRED_FEATURES_def state_alias_def stub_model_def Let_def
      dict_get_def lib_for_def get_aqi_status_def)

theorem get_aqi_prediction_response_witness:
  "fst (get_aqi_prediction (lib_for line_alias (JObj obj_alias)) state_alias) =
     Inr \<lparr>aqi = 42, status = ''Good'',
          sensor_data =
            [(''PM2.5'', JNum 40), (''PM10'', JNum 60), (''NH3'', JNum 10), (''CO'', JNum 2),
             (''temp'', JNull), (''hum'', JNull)]\<rparr> \<and>
   (\<exists>sd m p. fst (read_arduino_data (lib_for line_alias (JObj obj_alias)) state_alias) = Some sd \<and>
      model state_alias = Some m \<and>
      predict m (map (\<lambda>f. (f, dict_get sd f)) REQUIRED_FEATURES) = Inr p \<and>
      p = 42 \<and> get_aqi_status p = ''Good'')"
proof -
  have ok: "fst (get_aqi_prediction (lib_for line_alias (JObj obj_alias)) state_alias) =
     Inr \<lparr>aqi = 42, status = ''Good'',
          sensor_data =
            [(''PM2.5'', JNum 40), (''PM10'', JNum 60), (''NH3'', JNum 10), (''CO'', JNum 2),
             (''temp'', JNull), (''hum'', JNull)]\<rparr>"
    unfolding get_aqi_prediction_def read_state_alias
    by (simp add: predict_try_def REQUIRED_FEATURES_def state_alias_def stub_model_def Let_def
        dict_get_def lib_for_def get_aqi_status_def)
  from get_aqi_prediction_response [OF ok] ok show ?thesis
    by (auto simp: state_alias_def stub_model_def get_aqi_status_def)
qed

section \<open>Properties of the read path\<close>

lemma readline_no_line_feed: "10 \<notin> set buf \<Longrightarrow> readline buf = (buf, [])"
proof -
  assume "10 \<notin> set buf"
  then have d: "dropWhile (\<lambda>b. b \<noteq> (10::8 word)) buf = []"
    by (auto simp: dropWhile_eq_Nil_conv)
  show ?thesis unfolding readline_def d by simp
qed

lemma read_try_decode_failure:
  "(\<exists>data. read_try L raw = Inr (Some data)) \<longleftrightarrow> decode_failure L raw = None"
  by (auto simp: read_try_def decode_failure_def Let_def
      split: option.splits json.splits sum.splits if_splits)

lemma read_None_iff:
  "ser st = Some buf \<Longrightarrow>
   fst (read_arduino_data L st) = None \<longleftrightarrow> decode_failure L (fst (readline buf)) \<noteq> None"
proof -
  assume a: "ser st = Some buf"
  have "fst (read_arduino_data L st) = None \<longleftrightarrow>
        \<not> (\<exists>data. read_try L (fst (readline buf)) = Inr (Some data))"
    by (auto simp: read_arduino_data_open [OF a] split: sum.splits)
  then show ?thesis by (simp only: read_try_decode_failure)
qed

lemma decode_failure_stage:
  "decode_failure L raw = Some s \<Longrightarrow> s \<noteq> Timeout \<and> s \<noteq> ConnectionUnavailable"
  by (auto simp: decode_failure_def split: option.splits json.splits if_splits)

lemma sensor_failure_iff:
  "fst (get_aqi_prediction L st) = Inl (HTTPException 500 Failed_to_read_sensor_data) \<longleftrightarrow>
   fst (read_arduino_data L st) = None"
proof -
  obtain res st1 where rd: "read_arduino_data L st = (res, st1)"
    by (cases "read_arduino_data L st")
  show ?thesis
  proof (cases res)
    case None
    with rd show ?thesis by (simp add: get_aqi_prediction_def)
  next
    case (Some sd)
    with rd have v: "validate_sensor_data sd = Inr True"
      using read_arduino_data_valid [of L st sd] by simp
    have ne: "sd \<noteq> []" using valid_has_required [OF v, of "''PM2.5''"]
      by (auto simp: REQUIRED_FEATURES_def)
    from rd Some ne show ?thesis
      by (auto simp: get_aqi_prediction_def split: prod.splits sum.splits)
  qed
qed

text \<open>
  Claim C7, amended. For every failure in the read path other than a timeout (connection
  unavailable, text-decode error, malformed payload, validation failure) the prediction
  query returns one and the same error, status 500 with the detail "Failed to read sensor
  data", which carries no payload and nothing that tells the stages apart. A read that
  times out returns the bytes received so far: when they do not decode to a valid record
  the query returns that same error, and when they do the read succeeds and the query
  does not return it.
\<close>

theorem sensor_read_failures_collapse:
  "read_failure L st = Some s \<Longrightarrow>
   (s \<noteq> Timeout \<longrightarrow>
      fst (get_aqi_prediction L st) = Inl (HTTPException 500 Failed_to_read_sensor_data)) \<and>
   (s = Timeout \<longrightarrow>
      (\<forall>buf. ser st = Some buf \<longrightarrow>
         (decode_failure L buf \<noteq> None \<longrightarrow>
            fst (get_aqi_prediction L st) =
              Inl (HTTPException 500 Failed_to_read_sensor_data)) \<and>
         (decode_failure L buf = None \<longrightarrow>
            fst (read_arduino_data L st) \<noteq> None \<and>
            fst (get_aqi_prediction L st) \<noteq>
              Inl (HTTPException 500 Failed_to_read_sensor_data))))"
proof (cases "ser st")
  case None
  assume "read_failure L st = Some s"
  with None show ?thesis
    by (auto simp: read_failure_def sensor_failure_iff read_arduino_data_def)
next
  case (Some buf)
  assume a: "read_failure L st = Some s"
  show ?thesis
  proof (cases "10 \<in> set buf")
    case True
    with a Some have df: "decode_failure L (fst (readline buf)) = Some s"
      by (simp add: read_failure_def)
    then have "fst (read_arduino_data L st) = None"
      by (simp add: read_None_iff [OF Some])
    moreover from df have "s \<noteq> Timeout" by (simp add: decode_failure_stage)
    ultimately show ?thesis by (simp add: sensor_failure_iff)
  next
    case False
    with a Some have s: "s = Timeout" by (simp add: read_failure_def)
    from False have "fst (readline buf) = buf" by (simp add: readline_no_line_feed)
    with s Some show ?thesis
      by (simp add: sensor_failure_iff read_None_iff [OF Some])
  qed
qed

theorem sensor_read_failures_collapse_witness:
  "read_failure (lib_for line_alias (JObj obj_alias)) (lifespan env_no_port) = Some ConnectionUnavailable \<and>
   fst (get_aqi_prediction (lib_for line_alias (JObj obj_alias)) (lifespan env_no_port)) =
     Inl (HTTPException 500 Failed_to_read_sensor_data) \<and>
   read_failure (lib_for line_alias (JObj obj_alias)) (lifespan env_port) = Some Timeout \<and>
   ser (lifespan env_port) = Some [] \<and>
   decode_failure (lib_for line_alias (JObj obj_alias)) [] = Some MalformedPayload \<and>
   fst (get_aqi_prediction (lib_for line_alias (JObj obj_alias)) (lifespan env_port)) =
     Inl (HTTPException 500 Failed_to_read_sensor_data) \<and>
   read_failure (lib_for line_alias (JObj obj_alias)) (state_alias\<lparr>ser := Some [255, 10]\<rparr>) = Some DecodeError \<and>
   fst (get_aqi_prediction (lib_for line_alias (JObj obj_alias)) (state_alias\<lparr>ser := Some [255, 10]\<rparr>)) =
     Inl (HTTPException 500 Failed_to_read_sensor_data) \<and>
   read_failure (lib_for ''[]'' (JArr [])) (state_alias\<lparr>ser := Some (ascii ''[]'' @ [10])\<rparr>) = Some MalformedPayload \<and>
   fst (get_aqi_prediction (lib_for ''[]'' (JArr [])) (state_alias\<lparr>ser := Some (ascii ''[]'' @ [10])\<rparr>)) =
     Inl (HTTPException 500 Failed_to_read_sensor_data) \<and>
   read_failure (lib_for ''{}'' (JObj [])) (state_alias\<lparr>ser := Some (ascii ''{}'' @ [10])\<rparr>) = Some ValidationFailed \<and>
   fst (get_aqi_prediction (lib_for ''{}'' (JObj [])) (state_alias\<lparr>ser := Some (ascii ''{}'' @ [10])\<rparr>)) =
     Inl (HTTPException 500 Failed_to_read_sensor_data)"
proof -
  have h1: "read_failure (lib_for line_alias (JObj obj_alias)) (lifespan env_no_port) = Some ConnectionUnavailable"
    by (simp add: read_failure_def lifespan_def env_no_port_def)
  have h2: "read_failure (lib_for line_alias (JObj obj_alias)) (lifespan env_port) = Some Timeout"
    by (simp add: read_failure_def lifespan_def env_port_def)
  have h2a: "ser (lifespan env_port) = Some []"
    by (simp add: lifespan_def env_port_def)
  have h2b: "decode_failure (lib_for line_alias (JObj obj_alias)) [] = Some MalformedPayload"
    by (simp add: decode_failure_def lib_for_def line_alias_def ascii_def)
  have h3: "read_failure (lib_for line_alias (JObj obj_alias)) (state_alias\<lparr>ser := Some [255, 10]\<rparr>) = Some DecodeError"
    by (simp add: read_failure_def decode_failure_def readline_def lib_for_def line_alias_def
        ascii_def)
  have h4: "read_failure (lib_for ''[]'' (JArr [])) (state_alias\<lparr>ser := Some (ascii ''[]'' @ [10])\<rparr>) = Some MalformedPayload"
    by (simp add: read_failure_def decode_failure_def readline_def lib_for_def ascii_def)
  have h5: "read_failure (lib_for ''{}'' (JObj [])) (state_alias\<lparr>ser := Some (ascii ''{}'' @ [10])\<rparr>) = Some ValidationFailed"
    by (simp add: read_failure_def decode_failure_def readline_def lib_for_def ascii_def
        rename_pm25_def validate_sensor_data_def ranges_def dict_get_def REQUIRED_FEATURES_def)
  from sensor_read_failures_collapse [OF h1] sensor_read_failures_collapse [OF h2]
    sensor_read_failures_collapse [OF h3] sensor_read_failures_collapse [OF h4]
    sensor_read_failures_collapse [OF h5] h1 h2 h2a h2b h3 h4 h5
  show ?thesis by simp
qed

lemma read_state_no_line_feed:
  "read_arduino_data (lib_for line_alias (JObj obj_alias)) state_no_line_feed =
     (Some [(''PM10'', JNum 60), (''NH3'', JNum 10), (''CO'', JNum 2), (''PM2.5'', JNum 40)],
      state_no_line_feed\<lparr>ser := Some [], calls := [Readline]\<rparr>)"
proof -
  have nl: "10 \<notin> set (ascii line_alias)" by (simp add: ascii_def line_alias_def)
  have dec: "decode_utf8 (lib_for line_alias (JObj obj_alias)) (ascii line_alias) = Some line_alias"
    by (simp add: lib_for_def)
  have js: "json_loads (lib_for line_alias (JObj obj_alias))
              (strip (lib_for line_alias (JObj obj_alias)) line_alias) = Some (JObj obj_alias)"
    by (simp add: lib_for_def)
  show ?thesis
    by (simp add: read_arduino_data_open [where buf = "ascii line_alias"] state_no_line_feed_def
        readline_no_line_feed [OF nl] read_try_object [OF dec js] rename_pm25_obj_alias
        renamed_obj_alias_valid)
qed

text \<open>
  The line of the example arriving without its line feed: no line arrives within the
  bound, the read returns the bytes received, they make a valid record, and the query
  answers with a prediction.
\<close>

theorem timeout_valid_record_counterexample:
  "10 \<notin> set (ascii line_alias) \<and>
   read_failure (lib_for line_alias (JObj obj_alias)) state_no_line_feed = Some Timeout \<and>
   fst (get_aqi_prediction (lib_for line_alias (JObj obj_alias)) state_no_line_feed) =
     Inr \<lparr>aqi = 42, status = ''Good'',
          sensor_data =
            [(''PM2.5'', JNum 40), (''PM10'', JNum 60), (''NH3'', JNum 10), (''CO'', JNum 2),
             (''temp'', JNull), (''hum'', JNull)]\<rparr>"
proof -
  have nl: "10 \<notin> set (ascii line_alias)" by (simp add: ascii_def line_alias_def)
  have rf: "read_failure (lib_for line_alias (JObj obj_alias)) state_no_line_feed = Some Timeout"
    using nl by (simp add: read_failure_def state_no_line_feed_def)
  have q: "fst (get_aqi_prediction (lib_for line_alias (JObj obj_alias)) state_no_line_feed) =
     Inr \<lparr>aqi = 42, status = ''Good'',
          sensor_data =
            [(''PM2.5'', JNum 40), (''PM10'', JNum 60), (''NH3'', JNum 10), (''CO'', JNum 2),
             (''temp'', JNull), (''hum'', JNull)]\<rparr>"
    unfolding get_aqi_prediction_def read_state_no_line_feed
    by (simp add: predict_try_def REQUIRED_FEATURES_def state_no_line_feed_def stub_model_def
        Let_def dict_get_def lib_for_def get_aqi_status_def)
  from nl rf q show ?thesis by simp
qed

lemma readline_split:
  "readline buf = (l, rest) \<Longrightarrow>
   buf = l @ rest \<and> count_list l 10 = (if 10 \<in> set buf then 1 else 0) \<and>
   (10 \<in> set buf \<longrightarrow> last l = 10) \<and> (10 \<notin> set buf \<longrightarrow> rest = [])"
proof (cases "dropWhile (\<lambda>b. b \<noteq> (10::8 word)) buf")
  case Nil
  assume r: "readline buf = (l, rest)"
  from Nil have "10 \<notin> set buf" by (auto simp: dropWhile_eq_Nil_conv)
  with r Nil show ?thesis by (auto simp: readline_def)
next
  case (Cons nl tl)
  assume r: "readline buf = (l, rest)"
  from Cons have nl: "nl = 10" using hd_dropWhile [of "\<lambda>b. b \<noteq> (10::8 word)" buf] by auto
  have split: "buf = takeWhile (\<lambda>b. b \<noteq> 10) buf @ 10 # tl"
    using takeWhile_dropWhile_id [of "\<lambda>b. b \<noteq> (10::8 word)" buf] Cons nl by simp
  then have mem: "10 \<in> set buf" by (metis in_set_conv_decomp)
  have "10 \<notin> set (takeWhile (\<lambda>b. b \<noteq> (10::8 word)) buf)"
    by (auto dest: set_takeWhileD)
  then have cnt: "count_list (takeWhile (\<lambda>b. b \<noteq> (10::8 word)) buf) 10 = 0" by simp
  from r Cons nl have l: "l = takeWhile (\<lambda>b. b \<noteq> 10) buf @ [10]" and rest: "rest = tl"
    by (auto simp: readline_def)
  from split l rest mem cnt show ?thesis by simp
qed

text \<open>
  Claim C8, amended. Every invocation of the line reader with an open connection attempts
  exactly one read, whatever stage fails afterwards, and never retries. The read consumes
  exactly one line when a complete line is pending: a prefix of the stream that ends in
  its only line feed. When no complete line arrives within the wait, it consumes the bytes
  received, which hold no line feed.
\<close>

theorem read_arduino_data_single_read:
  "ser st = Some buf \<Longrightarrow> read_arduino_data L st = (r, st') \<Longrightarrow>
   calls st' = calls st @ [Readline] \<and>
   (\<exists>l rest. ser st' = Some rest \<and> buf = l @ rest \<and>
      count_list l 10 = (if 10 \<in> set buf then 1 else 0) \<and>
      (10 \<in> set buf \<longrightarrow> last l = 10) \<and> (10 \<notin> set buf \<longrightarrow> rest = []))"
proof -
  assume a: "ser st = Some buf" and b: "read_arduino_data L st = (r, st')"
  obtain l rest where lr: "readline buf = (l, rest)" by (cases "readline buf")
  from a b lr have st': "st' = st\<lparr>ser := Some rest, calls := calls st @ [Readline]\<rparr>"
    by (simp add: read_arduino_data_open)
  from readline_split [OF lr] st' show ?thesis by auto
qed

theorem read_arduino_data_single_read_witness:
  "ser state_alias = Some (ascii line_alias @ [10]) \<and> 10 \<in> set (ascii line_alias @ [10]) \<and>
   calls state_alias = [] \<and>
   calls (snd (read_arduino_data (lib_for line_alias (JObj obj_alias)) state_alias)) = [Readline] \<and>
   ser (snd (read_arduino_data (lib_for line_alias (JObj obj_alias)) state_alias)) = Some []"
proof -
  have h1: "ser state_alias = Some (ascii line_alias @ [10])" by (simp add: state_alias_def)
  have h2: "calls state_alias = []" by (simp add: state_alias_def)
  from read_arduino_data_single_read [OF h1 read_state_alias] h1 h2 show ?thesis
    by (simp add: read_state_alias)
qed

lemma read_empty_port:
  "read_arduino_data (lib_for line_alias (JObj obj_alias)) (lifespan env_port) =
     (None, lifespan env_port\<lparr>calls := [Readline]\<rparr>)"
  by (simp add: read_arduino_data_def lifespan_def env_port_def readline_def read_try_def
      lib_for_def line_alias_def ascii_def)

text \<open>
  An open port on which nothing arrives: the one read times out and consumes no line.
\<close>

theorem read_arduino_data_no_line_counterexample:
  "ser (lifespan env_port) = Some [] \<and>
   fst (read_arduino_data (lib_for line_alias (JObj obj_alias)) (lifespan env_port)) = None \<and>
   ser (snd (read_arduino_data (lib_for line_alias (JObj obj_alias)) (lifespan env_port))) = Some [] \<and>
   calls (snd (read_arduino_data (lib_for line_alias (JObj obj_alias)) (lifespan env_port))) = [Readline]"
  unfolding read_empty_port by (simp add: lifespan_def env_port_def)

section \<open>Properties of a service without a model\<close>

lemma valid_build_input:
  "validate_sensor_data sd = Inr True \<Longrightarrow>
   build_input REQUIRED_FEATURES sd [] = Inr (map (\<lambda>f. (f, dict_get sd f)) REQUIRED_FEATURES)"
proof -
  assume v: "validate_sensor_data sd = Inr True"
  have "map_of sd ''PM2.5'' \<noteq> None" "map_of sd ''PM10'' \<noteq> None"
       "map_of sd ''NH3'' \<noteq> None" "map_of sd ''CO'' \<noteq> None"
    using valid_has_required [OF v] by (simp_all add: REQUIRED_FEATURES_def)
  then show ?thesis
    by (auto simp: REQUIRED_FEATURES_def dict_get_def)
qed

lemma read_arduino_data_calls:
  "calls (snd (read_arduino_data L st)) =
     (if ser st = None then calls st else calls st @ [Readline])"
  by (simp add: read_arduino_data_def split: option.splits prod.splits)

lemma get_aqi_prediction_no_model:
  assumes "model st = None"
  shows "fst (get_aqi_prediction L st) =
           (if fst (read_arduino_data L st) = None
            then Inl (HTTPException 500 Failed_to_read_sensor_data)
            else Inl (HTTPException 500 (Prediction_error (HTTPException 500 ML_model_not_loaded))))"
    and "model (snd (get_aqi_prediction L st)) = None"
    and "calls (snd (get_aqi_prediction L st)) = calls (snd (read_arduino_data L st))"
proof -
  obtain res st1 where rd: "read_arduino_data L st = (res, st1)"
    by (cases "read_arduino_data L st")
  have m1: "model st1 = None"
    using read_arduino_data_model [of L st] rd assms by simp
  have all: "fst (get_aqi_prediction L st) =
           (if fst (read_arduino_data L st) = None
            then Inl (HTTPException 500 Failed_to_read_sensor_data)
            else Inl (HTTPException 500 (Prediction_error (HTTPException 500 ML_model_not_loaded))))
     \<and> model (snd (get_aqi_prediction L st)) = None
     \<and> calls (snd (get_aqi_prediction L st)) = calls (snd (read_arduino_data L st))"
  proof (cases res)
    case None
    with rd assms show ?thesis
      using read_arduino_data_model [of L st] by (simp add: get_aqi_prediction_def)
  next
    case (Some sd)
    with rd have v: "validate_sensor_data sd = Inr True"
      using read_arduino_data_valid [of L st sd] by simp
    have ne: "sd \<noteq> []" using valid_has_required [OF v, of "''PM2.5''"]
      by (auto simp: REQUIRED_FEATURES_def)
    have "predict_try L sd st1 = (Inl (HTTPException 500 ML_model_not_loaded), st1)"
      by (simp add: predict_try_def valid_build_input [OF v] m1)
    with rd Some ne m1 show ?thesis by (simp add: get_aqi_prediction_def)
  qed
  from all show "fst (get_aqi_prediction L st) =
           (if fst (read_arduino_data L st) = None
            then Inl (HTTPException 500 Failed_to_read_sensor_data)
            else Inl (HTTPException 500 (Prediction_error (HTTPException 500 ML_model_not_loaded))))"
    and "model (snd (get_aqi_prediction L st)) = None"
    and "calls (snd (get_aqi_prediction L st)) = calls (snd (read_arduino_data L st))"
    by simp_all
qed

lemma serve_no_model:
  "model st = None \<Longrightarrow> list_all (\<lambda>c. c = Readline) (calls st) \<Longrightarrow>
   list_all degraded_reply (fst (serve L st evs)) \<and>
   list_all (\<lambda>c. c = Readline) (calls (snd (serve L st evs)))"
proof (induction evs arbitrary: st)
  case Nil
  then show ?case by simp
next
  case (Cons ev evs)
  show ?case
  proof (cases ev)
    case GET_api_health
    with Cons.IH [OF Cons.prems] Cons.prems(1) show ?thesis
      by (simp add: split_beta degraded_reply_def health_check_def)
  next
    case GET_api_aqi
    let ?st1 = "snd (get_aqi_prediction L st)"
    note step = get_aqi_prediction_no_model [OF Cons.prems(1), of L]
    have c1: "list_all (\<lambda>c. c = Readline) (calls ?st1)"
      using Cons.prems(2) by (simp add: step(3) read_arduino_data_calls)
    have d: "degraded_reply (Aqi_reply (fst (get_aqi_prediction L st)))"
      by (simp add: degraded_reply_def step(1))
    from Cons.IH [OF step(2) c1] d GET_api_aqi show ?thesis
      by (simp add: split_beta)
  next
    case (Bytes_arrive bs)
    have "model (st\<lparr>ser := map_option (\<lambda>buf. buf @ bs) (ser st)\<rparr>) = None"
         "list_all (\<lambda>c. c = Readline) (calls (st\<lparr>ser := map_option (\<lambda>buf. buf @ bs) (ser st)\<rparr>))"
      using Cons.prems by simp_all
    from Cons.IH [OF this] Bytes_arrive show ?thesis by simp
  qed
qed

lemma lifespan_mismatch:
  "model_file_exists env \<Longrightarrow> joblib_load env = Inr m \<Longrightarrow>
   feature_names_in m \<noteq> Some REQUIRED_FEATURES \<Longrightarrow> model (lifespan env) = None"
  by (auto simp: lifespan_def load_model_def split: option.splits)

text \<open>
  Claim C1, amended. If at startup the feature names recorded in the model, in order, differ
  from the configured list ["PM2.5", "PM10", "NH3", "CO"], the model reference is discarded;
  from then on every health query reports model_loaded = false, no prediction call is ever
  attempted (the only calls out of the service are reads of the serial port), and every
  prediction query fails with status 500: with the sensor-read failure when the read path
  fails, and otherwise with an error that reports the model as not loaded.
\<close>

theorem mismatch_disables_prediction:
  "model_file_exists env \<Longrightarrow> joblib_load env = Inr m \<Longrightarrow>
   feature_names_in m \<noteq> Some REQUIRED_FEATURES \<Longrightarrow>
   model (lifespan env) = None \<and>
   list_all degraded_reply (fst (serve L (lifespan env) evs)) \<and>
   list_all (\<lambda>c. c = Readline) (calls (snd (serve L (lifespan env) evs))) \<and>
   (\<forall>st. model st = None \<longrightarrow>
      fst (get_aqi_prediction L st) =
        (if fst (read_arduino_data L st) = None
         then Inl (HTTPException 500 Failed_to_read_sensor_data)
         else Inl (HTTPException 500
                (Prediction_error (HTTPException 500 ML_model_not_loaded)))))"
proof -
  assume a: "model_file_exists env" "joblib_load env = Inr m"
    "feature_names_in m \<noteq> Some REQUIRED_FEATURES"
  have m: "model (lifespan env) = None" using a by (rule lifespan_mismatch)
  have "list_all (\<lambda>c. c = Readline) (calls (lifespan env))" by (simp add: lifespan_def)
  from m serve_no_model [OF m this] show ?thesis
    by (simp add: get_aqi_prediction_no_model(1))
qed

theorem mismatch_disables_prediction_witness:
  "model_file_exists env_port \<and> joblib_load env_port = Inr swapped_model \<and>
   feature_names_in swapped_model \<noteq> Some REQUIRED_FEATURES \<and>
   model (lifespan env_port) = None \<and>
   list_all degraded_reply
     (fst (serve (lib_for line_alias (JObj obj_alias)) (lifespan env_port)
        [GET_api_health, Bytes_arrive (ascii line_alias @ [10]), GET_api_aqi, GET_api_aqi])) \<and>
   fst (serve (lib_for line_alias (JObj obj_alias)) (lifespan env_port)
        [GET_api_health, Bytes_arrive (ascii line_alias @ [10]), GET_api_aqi, GET_api_aqi]) =
     [Health_reply \<lparr>serial_connected = True, model_loaded = False,
                    required_features = [''PM2.5'', ''PM10'', ''NH3'', ''CO'']\<rparr>,
      Aqi_reply (Inl (HTTPException 500 (Prediction_error (HTTPException 500 ML_model_not_loaded)))),
      Aqi_reply (Inl (HTTPException 500 Failed_to_read_sensor_data))]"
proof -
  let ?L = "lib_for line_alias (JObj obj_alias)"
  have h1: "model_file_exists env_port" by (simp add: env_port_def)
  have h2: "joblib_load env_port = Inr swapped_model" by (simp add: env_port_def)
  have h3: "feature_names_in swapped_model \<noteq> Some REQUIRED_FEATURES"
    by (simp add: swapped_model_def REQUIRED_FEATURES_def)
  have st0: "lifespan env_port = \<lparr>ser = Some [], model = None, calls = []\<rparr>"
    by (simp add: lifespan_def env_port_def load_model_def swapped_model_def REQUIRED_FEATURES_def)
  have r1: "read_arduino_data ?L \<lparr>ser = Some (ascii line_alias @ [10]), model = None, calls = []\<rparr> =
      (Some [(''PM10'', JNum 60), (''NH3'', JNum 10), (''CO'', JNum 2), (''PM2.5'', JNum 40)],
       \<lparr>ser = Some [], model = None, calls = [Readline]\<rparr>)"
    by (simp add: read_arduino_data_open [where buf = "ascii line_alias @ [10]"]
      readline_line_alias read_try_def lib_for_def Let_def rename_pm25_obj_alias
      renamed_obj_alias_valid)
  have q1: "get_aqi_prediction ?L \<lparr>ser = Some (ascii line_alias @ [10]), model = None, calls = []\<rparr> =
      (Inl (HTTPException 500 (Prediction_error (HTTPException 500 ML_model_not_loaded))),
       \<lparr>ser = Some [], model = None, calls = [Readline]\<rparr>)"
    unfolding get_aqi_prediction_def r1
    by (simp add: predict_try_def REQUIRED_FEATURES_def)
  have q2: "get_aqi_prediction ?L \<lparr>ser = Some [], model = None, calls = [Readline]\<rparr> =
      (Inl (HTTPException 500 Failed_to_read_sensor_data),
       \<lparr>ser = Some [], model = None, calls = [Readline, Readline]\<rparr>)"
    by (simp add: get_aqi_prediction_def read_arduino_data_def readline_def read_try_def
        lib_for_def line_alias_def ascii_def)
  have run: "fst (serve ?L (lifespan env_port)
        [GET_api_health, Bytes_arrive (ascii line_alias @ [10]), GET_api_aqi, GET_api_aqi]) =
     [Health_reply \<lparr>serial_connected = True, model_loaded = False,
                    required_features = [''PM2.5'', ''PM10'', ''NH3'', ''CO'']\<rparr>,
      Aqi_reply (Inl (HTTPException 500 (Prediction_error (HTTPException 500 ML_model_not_loaded)))),
      Aqi_reply (Inl (HTTPException 500 Failed_to_read_sensor_data))]"
    unfolding st0 by (simp add: q1 q2 health_check_def REQUIRED_FEATURES_def)
  from mismatch_disables_prediction [OF h1 h2 h3, of ?L
      "[GET_api_health, Bytes_arrive (ascii line_alias @ [10]), GET_api_aqi, GET_api_aqi]"]
    h1 h2 h3 run
  show ?thesis by simp
qed

text \<open>
  A mismatched model and a serial port that did not open: the prediction query fails with
  the sensor-read failure, not with the model-not-loaded error.
\<close>

theorem mismatch_sensor_failure_counterexample:
  "model_file_exists env_no_port \<and> joblib_load env_no_port = Inr swapped_model \<and>
   feature_names_in swapped_model \<noteq> Some REQUIRED_FEATURES \<and>
   fst (serve (lib_for line_alias (JObj obj_alias)) (lifespan env_no_port) [GET_api_aqi]) =
     [Aqi_reply (Inl (HTTPException 500 Failed_to_read_sensor_data))]"
  by (simp add: env_no_port_def swapped_model_def REQUIRED_FEATURES_def lifespan_def
      get_aqi_prediction_def read_arduino_data_def split_beta)

end
